theory Spec2Isabelle
  imports Main "HOL-Library.Word" "HOL-Library.AList"
begin

section \<open>Values shared by the two source files\<close>

text \<open>
  Go's run-time panics are values of the type \<open>panic\<close>; a function that can panic
  returns \<open>panic + 'a\<close> with \<open>Inl\<close> for the panic.  Indexing a slice is written with
  \<open>index\<close>, which panics out of range as Go does.
\<close>

type_synonym int64 = "64 word"

datatype panic =
    IndexOutOfRange nat nat
  | SliceBoundsOutOfRange
  | NilPointerDereference
  | Repanic string

definition index :: "'a list \<Rightarrow> nat \<Rightarrow> panic + 'a" where
  "index xs i = (if i < length xs then Inr (xs ! i) else Inl (IndexOutOfRange i (length xs)))"

section \<open>reflector.go: options, bounds and the field selector\<close>

text \<open>
  \<open>metav1.ListOptions\<close> is declared outside the two source files; the record has the
  fields reflector.go reads or writes.
\<close>

record ListOptions =
  ResourceVersion :: string
  FieldSelector :: string
  TimeoutSeconds :: "int option"
  AllowWatchBookmarks :: bool

text \<open>
  The payload read from the reset channel is an \<open>interface{}\<close>: nil, a \<open>[]int64\<close>, or a
  value of any other dynamic type.
\<close>

datatype signal =
    NilSignal
  | Int64Slice "int64 list"
  | OtherSignal string

text \<open>
  The fields of \<open>Reflector\<close> that the modelled functions use.  \<open>expectedType\<close> is the
  \<open>reflect.Type\<close> (\<open>None\<close> for nil), named by a string; \<open>store\<close> is the state of the
  store behind the \<open>Store\<close> interface; \<open>resetCh\<close> records whether the channel member is
  non-nil.  Durations are nanoseconds, as \<open>time.Duration\<close> is.
\<close>

record 's Reflector =
  name :: string
  expectedType :: "string option"
  store :: 's
  period :: int
  resyncPeriod :: int
  lastSyncResourceVersion :: string
  WatchListPageSize :: int
  resetCh :: bool
  ownerKind :: string
  bounds :: "int64 list"

definition second :: int where
  "second = 1000000000"

definition NewNamedReflector :: "string \<Rightarrow> string option \<Rightarrow> 's \<Rightarrow> int \<Rightarrow> 's Reflector" where
  "NewNamedReflector nm expected st resync =
     \<lparr> name = nm, expectedType = expected, store = st, period = second,
       resyncPeriod = resync, lastSyncResourceVersion = [], WatchListPageSize = 0,
       resetCh = False, ownerKind = [], bounds = [- 1, - 1] \<rparr>"

definition NewReflectorWithReset ::
  "string \<Rightarrow> string option \<Rightarrow> 's \<Rightarrow> int \<Rightarrow> bool \<Rightarrow> string \<Rightarrow> 's Reflector" where
  "NewReflectorWithReset nm expected st resync ch kind =
     (NewNamedReflector nm expected st resync) \<lparr> resetCh := ch, ownerKind := kind \<rparr>"

definition setLastSyncResourceVersion :: "string \<Rightarrow> 's Reflector \<Rightarrow> 's Reflector" where
  "setLastSyncResourceVersion v r = r \<lparr> lastSyncResourceVersion := v \<rparr>"

definition appendFieldSelector :: "ListOptions \<Rightarrow> ListOptions \<Rightarrow> ListOptions" where
  "appendFieldSelector target fieldSelector =
     (if length (FieldSelector target) = 0
      then target \<lparr> FieldSelector := FieldSelector fieldSelector \<rparr>
      else target \<lparr> FieldSelector := FieldSelector target @ '','' @ FieldSelector fieldSelector \<rparr>)"

text \<open>
  \<open>setBounds\<close>: the two-value type assertion yields a nil slice for a payload that is not
  a \<open>[]int64\<close>; the arguments of the log call are evaluated left to right before the
  assignment, so the first index out of range panics and \<open>bounds\<close> is not written.
\<close>

definition assertInt64Slice :: "signal \<Rightarrow> int64 list" where
  "assertInt64Slice sig = (case sig of Int64Slice xs \<Rightarrow> xs | _ \<Rightarrow> [])"

definition setBounds :: "'s Reflector \<Rightarrow> signal \<Rightarrow> panic + 's Reflector" where
  "setBounds r sig =
     (let newBounds = assertInt64Slice sig in
      case index (bounds r) 0 of Inl p \<Rightarrow> Inl p | Inr _ \<Rightarrow>
      case index (bounds r) 1 of Inl p \<Rightarrow> Inl p | Inr _ \<Rightarrow>
      case index newBounds 0 of Inl p \<Rightarrow> Inl p | Inr _ \<Rightarrow>
      case index newBounds 1 of Inl p \<Rightarrow> Inl p | Inr _ \<Rightarrow>
      Inr (r \<lparr> bounds := newBounds \<rparr>))"

definition isInitBounds :: "'s Reflector \<Rightarrow> panic + bool" where
  "isInitBounds r =
     (case index (bounds r) 0 of Inl p \<Rightarrow> Inl p | Inr lo \<Rightarrow>
      if lo = - 1
      then (case index (bounds r) 1 of Inl p \<Rightarrow> Inl p | Inr hi \<Rightarrow> Inr (hi = - 1))
      else Inr False)"

text \<open>
  \<open>%v\<close> and \<open>%+v\<close> print an \<open>int64\<close> in decimal, with a minus sign when negative.
\<close>

definition digitChar :: "nat \<Rightarrow> char" where
  "digitChar d = ''0123456789'' ! d"

function formatUint :: "nat \<Rightarrow> string" where
  "formatUint n = (if n < 10 then [digitChar n] else formatUint (n div 10) @ [digitChar (n mod 10)])"
  by pat_completeness auto
termination
  by (relation "measure id") auto

definition formatInt64 :: "int64 \<Rightarrow> string" where
  "formatInt64 w =
     (if sint w < 0 then ''-'' @ formatUint (nat (- sint w)) else formatUint (nat (sint w)))"

definition createHashkeyListOptions :: "'s Reflector \<Rightarrow> panic + ListOptions" where
  "createHashkeyListOptions r =
     (case index (bounds r) 0 of Inl p \<Rightarrow> Inl p | Inr lo \<Rightarrow>
      let operator = (if lo = 0 then ''gte'' else ''gt'') in
      case index (bounds r) 1 of Inl p \<Rightarrow> Inl p | Inr hi \<Rightarrow>
      if ownerKind r \<noteq> []
      then Inr \<lparr> ResourceVersion = [],
                 FieldSelector =
                   ''metadata.ownerReferences.hashkey.'' @ ownerKind r @ ''='' @ operator @ '':''
                   @ formatInt64 lo @ '',metadata.ownerReferences.hashkey.'' @ ownerKind r
                   @ ''=lte:'' @ formatInt64 hi,
                 TimeoutSeconds = None, AllowWatchBookmarks = False \<rparr>
      else Inr \<lparr> ResourceVersion = [],
                 FieldSelector =
                   ''metadata.hashkey='' @ operator @ '':'' @ formatInt64 lo
                   @ '',metadata.hashkey=lte:'' @ formatInt64 hi,
                 TimeoutSeconds = None, AllowWatchBookmarks = False \<rparr>)"

text \<open>
  The invariant the data model states for \<open>bounds\<close>: the sentinel, or a pair whose lower
  bound does not exceed the upper one (as signed 64-bit integers).
\<close>

definition boundsInv :: "int64 list \<Rightarrow> bool" where
  "boundsInv bs = (bs = [- 1, - 1] \<or> (length bs = 2 \<and> sint (bs ! 0) \<le> sint (bs ! 1)))"

section \<open>reflector.go: objects, events, errors and the store\<close>

text \<open>
  A \<open>runtime.Object\<close> as the reflector sees it: its dynamic type (\<open>reflect.TypeOf\<close>,
  \<open>None\<close> for nil) and what \<open>meta.Accessor\<close> returns for it (\<open>None\<close> when it fails).
\<close>

record ObjectMeta =
  ObjName :: string
  ObjResourceVersion :: string

record RuntimeObject =
  dynType :: "string option"
  accessor :: "ObjectMeta option"

datatype EventType = Added | Modified | Deleted | Bookmark | Error | UnknownType string

record Event =
  Type :: EventType
  Object :: RuntimeObject

text \<open>
  The list object as the reflector reads it: \<open>meta.ListAccessor\<close> gives the terminal
  resource version and \<open>meta.ExtractList\<close> the items (\<open>None\<close> when they fail).
\<close>

record ListObject =
  ListAccessor :: "string option"
  ExtractList :: "RuntimeObject list option"

text \<open>
  Errors that come from outside reflector.go (the lister and watcher, the store, the
  resync worker), with the wrapping the watch loop inspects; and the errors reflector.go
  itself returns.
\<close>

datatype exterr =
    EOF
  | ErrUnexpectedEOF
  | UrlError exterr
  | OpError exterr
  | Errno nat
  | OtherError string

definition ECONNREFUSED :: nat where
  "ECONNREFUSED = 111"

datatype rerror =
    errorResyncRequested
  | errorStopRequested
  | errorResetRequested
  | ResetChannelClosed
  | VeryShortWatch string
  | FailedToList exterr
  | UnableToUnderstandList
  | UnableToSync exterr
  | StatusError RuntimeObject
  | External exterr

text \<open>
  The \<open>Store\<close> interface is a parameter: each operation takes the state of the store
  and returns its error (\<open>None\<close> for nil) and the new state.
\<close>

record 's Store =
  Add :: "RuntimeObject \<Rightarrow> 's \<Rightarrow> exterr option \<times> 's"
  Update :: "RuntimeObject \<Rightarrow> 's \<Rightarrow> exterr option \<times> 's"
  Delete :: "RuntimeObject \<Rightarrow> 's \<Rightarrow> exterr option \<times> 's"
  Replace :: "RuntimeObject list \<Rightarrow> string \<Rightarrow> 's \<Rightarrow> exterr option \<times> 's"

text \<open>
  What the reflector does to the outside is recorded in order: the goroutines it starts,
  its calls of the store and of \<open>Watch\<close>, its sleeps, what it hands to
  \<open>utilruntime.HandleError\<close>, the non-blocking send on \<open>cancelCh\<close>, and the deferred
  \<open>w.Stop()\<close> and \<open>close(cancelCh)\<close>.  Log lines written with klog are left out, and so
  is what the resync worker does in its own goroutine: the reflector's goroutine meets it
  only through the error channel.
\<close>

datatype report =
    UnexpectedType "string option" "string option"
  | NoAccessor Event
  | AddFailed RuntimeObject exterr
  | UpdateFailed RuntimeObject exterr
  | DeleteFailed RuntimeObject exterr
  | UnknownEventType Event
  | FailedToWatch exterr
  | RunError rerror

datatype effect =
    GoListHelper int ListOptions
  | GoResyncWorker
  | WatchCall ListOptions
  | Sleep int
  | StoreAdd RuntimeObject
  | StoreUpdate RuntimeObject
  | StoreDelete RuntimeObject
  | StoreReplace "RuntimeObject list" string
  | Handled report
  | WatchStop
  | SendCancel
  | CloseCancel

text \<open>
  The environment is a script: what each interaction of the reflector's own goroutine
  meets, in order.  \<open>StopOpen\<close> and \<open>StopClosed\<close> answer a non-blocking look at the stop
  channel; \<open>StopClosed\<close> is also the stop case of a blocking select.  \<open>ResetRead\<close> is a
  receive from the reset channel (\<open>None\<close>: the channel is closed).  \<open>ListResult\<close> is what
  the pager returned when the list helper closes \<open>listCh\<close>, \<open>ListPanicked\<close> a value on
  \<open>panicCh\<close>.  \<open>WatchResult t e\<close> is one call of \<open>Watch\<close>: the timeout drawn for it and
  the error returned (\<open>None\<close>: the watch is open).  \<open>ResyncError\<close> is an error on the
  resync worker's channel, \<open>WatchEvent\<close> an event of the watch, \<open>WatchClosed d\<close> the close
  of the watch's channel, with \<open>d\<close> what the clock then gives for the time since the
  handler started.  \<open>PeriodElapsed\<close> is the timer of \<open>wait.Until\<close>.
\<close>

datatype input =
    StopOpen
  | StopClosed
  | ResetRead "signal option"
  | ListResult "exterr + ListObject"
  | ListPanicked string
  | WatchResult int "exterr option"
  | ResyncError exterr
  | WatchEvent Event
  | WatchClosed int
  | PeriodElapsed

text \<open>
  The state: the reflector, whether the stop channel is known to be closed, and the
  effects so far.  A function returns an \<open>outcome\<close>: it returns a value, panics, stays
  blocked in a select for ever (the script has ended and stop is open), or meets a
  script that does not say what happens next.
\<close>

record 's world =
  refl :: "'s Reflector"
  stopCh :: bool
  effects :: "effect list"

datatype 'a outcome = Returns 'a | Panics panic | Blocks | Unscripted

definition emit :: "effect \<Rightarrow> 's world \<Rightarrow> 's world" where
  "emit e w = w \<lparr> effects := effects w @ [e] \<rparr>"

definition HandleError :: "report \<Rightarrow> 's world \<Rightarrow> 's world" where
  "HandleError x w = emit (Handled x) w"

definition setStore :: "'s \<Rightarrow> 's world \<Rightarrow> 's world" where
  "setStore st w = w \<lparr> refl := (refl w) \<lparr> store := st \<rparr> \<rparr>"

definition pollStop :: "input list \<Rightarrow> 's world \<Rightarrow> bool option \<times> input list \<times> 's world" where
  "pollStop ins w =
     (if stopCh w then (Some True, ins, w)
      else case ins of
             StopClosed # rest \<Rightarrow> (Some True, rest, w \<lparr> stopCh := True \<rparr>)
           | StopOpen # rest \<Rightarrow> (Some False, rest, w)
           | _ \<Rightarrow> (None, ins, w))"

section \<open>reflector.go: syncWith and the watch handler\<close>

definition syncWith ::
  "'s Store \<Rightarrow> RuntimeObject list \<Rightarrow> string \<Rightarrow> 's world \<Rightarrow> exterr option \<times> 's world" where
  "syncWith S items resourceVersion w =
     (let found = foldl (\<lambda>found item. found @ [item]) [] items in
      case Replace S found resourceVersion (store (refl w)) of
        (err, st) \<Rightarrow> (err, emit (StoreReplace found resourceVersion) (setStore st w)))"

text \<open>
  \<open>watchHandlerHelper\<close> returns the error, the event count, the resource version
  behind the pointer, and the state.
\<close>

definition watchHandlerHelper ::
  "'s Store \<Rightarrow> Event \<Rightarrow> string \<Rightarrow> int \<Rightarrow> 's world \<Rightarrow> rerror option \<times> int \<times> string \<times> 's world" where
  "watchHandlerHelper S event resourceVersion eventCount w =
     (if Type event = Error
      then (Some (StatusError (Object event)), eventCount, resourceVersion, w)
      else
        if expectedType (refl w) \<noteq> None \<and> expectedType (refl w) \<noteq> dynType (Object event)
        then (None, eventCount, resourceVersion,
              HandleError (UnexpectedType (expectedType (refl w)) (dynType (Object event))) w)
        else
            (case accessor (Object event) of
               None \<Rightarrow> (None, eventCount, resourceVersion, HandleError (NoAccessor event) w)
             | Some meta \<Rightarrow>
                 let newResourceVersion = ObjResourceVersion meta;
                     w1 =
                       (case Type event of
                          Added \<Rightarrow>
                            (case Add S (Object event) (store (refl w)) of
                               (err, st) \<Rightarrow>
                                 let w' = emit (StoreAdd (Object event)) (setStore st w) in
                                 (case err of None \<Rightarrow> w'
                                  | Some e \<Rightarrow> HandleError (AddFailed (Object event) e) w'))
                        | Modified \<Rightarrow>
                            (case Update S (Object event) (store (refl w)) of
                               (err, st) \<Rightarrow>
                                 let w' = emit (StoreUpdate (Object event)) (setStore st w) in
                                 (case err of None \<Rightarrow> w'
                                  | Some e \<Rightarrow> HandleError (UpdateFailed (Object event) e) w'))
                        | Deleted \<Rightarrow>
                            (case Delete S (Object event) (store (refl w)) of
                               (err, st) \<Rightarrow>
                                 let w' = emit (StoreDelete (Object event)) (setStore st w) in
                                 (case err of None \<Rightarrow> w'
                                  | Some e \<Rightarrow> HandleError (DeleteFailed (Object event) e) w'))
                        | Bookmark \<Rightarrow> w
                        | _ \<Rightarrow> HandleError (UnknownEventType event) w)
                 in (None, eventCount + 1, newResourceVersion,
                     w1 \<lparr> refl := setLastSyncResourceVersion newResourceVersion (refl w1) \<rparr>)))"

text \<open>
  The loop of \<open>watchHandler\<close>: one select per input.  The reset case exists only when
  \<open>resetCh\<close> is non-nil.  The result carries the event count at the end, the resource
  version behind the pointer, the rest of the script and the state.
\<close>

fun watchHandlerLoop ::
  "'s Store \<Rightarrow> input list \<Rightarrow> string \<Rightarrow> int \<Rightarrow> 's world
   \<Rightarrow> rerror option outcome \<times> int \<times> string \<times> input list \<times> 's world" where
  "watchHandlerLoop S [] resourceVersion eventCount w =
     (if stopCh w then (Returns (Some errorStopRequested), eventCount, resourceVersion, [], w)
      else (Blocks, eventCount, resourceVersion, [], w))"
| "watchHandlerLoop S (i # ins) resourceVersion eventCount w =
     (case i of
        StopClosed \<Rightarrow>
          (Returns (Some errorStopRequested), eventCount, resourceVersion, ins,
           w \<lparr> stopCh := True \<rparr>)
      | ResetRead sig \<Rightarrow>
          if resetCh (refl w) then
            (case sig of
               None \<Rightarrow> (Returns (Some ResetChannelClosed), eventCount, resourceVersion, ins, w)
             | Some signal \<Rightarrow>
                 (case setBounds (refl w) signal of
                    Inl p \<Rightarrow> (Panics p, eventCount, resourceVersion, ins, w)
                  | Inr r \<Rightarrow>
                      (Returns (Some errorResetRequested), eventCount, resourceVersion, ins,
                       w \<lparr> refl := r \<rparr>)))
          else (Unscripted, eventCount, resourceVersion, i # ins, w)
      | ResyncError err \<Rightarrow>
          (Returns (Some (External err)), eventCount, resourceVersion, ins, w)
      | WatchEvent event \<Rightarrow>
          (case watchHandlerHelper S event resourceVersion eventCount w of
             (Some err, eventCount', resourceVersion', w') \<Rightarrow>
               (Returns (Some err), eventCount', resourceVersion', ins, w')
           | (None, eventCount', resourceVersion', w') \<Rightarrow>
               watchHandlerLoop S ins resourceVersion' eventCount' w')
      | WatchClosed watchDuration \<Rightarrow>
          if watchDuration < 1 * second \<and> eventCount = 0
          then (Returns (Some (VeryShortWatch (name (refl w)))), eventCount, resourceVersion,
                ins, w)
          else (Returns None, eventCount, resourceVersion, ins, w)
      | _ \<Rightarrow> (Unscripted, eventCount, resourceVersion, i # ins, w))"

text \<open>\<open>defer w.Stop()\<close> runs when the handler returns or panics.\<close>

definition deferred :: "effect \<Rightarrow> 'a outcome \<Rightarrow> 's world \<Rightarrow> 's world" where
  "deferred e out w = (case out of Returns _ \<Rightarrow> emit e w | Panics _ \<Rightarrow> emit e w | _ \<Rightarrow> w)"

definition watchHandler ::
  "'s Store \<Rightarrow> input list \<Rightarrow> string \<Rightarrow> 's world
   \<Rightarrow> rerror option outcome \<times> string \<times> input list \<times> 's world" where
  "watchHandler S ins resourceVersion w =
     (case watchHandlerLoop S ins resourceVersion 0 w of
        (out, eventCount, resourceVersion', ins', w') \<Rightarrow>
          (out, resourceVersion', ins', deferred WatchStop out w'))"

lemma watchHandlerLoop_returns_nil_consumes:
  "watchHandlerLoop S ins rv n w = (Returns None, n', rv', ins', w') \<Longrightarrow> length ins' < length ins"
proof (induction ins arbitrary: rv n w)
  case Nil
  then show ?case by (simp split: if_splits)
next
  case (Cons i ins)
  show ?case
  proof (cases i)
    case (WatchEvent event)
    then show ?thesis
      using Cons.prems Cons.IH
      by (fastforce split: prod.splits option.splits)
  qed (use Cons.prems in \<open>auto split: if_splits option.splits sum.splits\<close>)
qed

lemma watchHandler_returns_nil_consumes:
  "watchHandler S ins rv w = (Returns None, rv', ins', w') \<Longrightarrow> length ins' < length ins"
  by (auto simp: watchHandler_def split: prod.splits dest: watchHandlerLoop_returns_nil_consumes)

lemma pollStop_consumes:
  "pollStop ins w = (b, ins', w') \<Longrightarrow> length ins' \<le> length ins"
  by (auto simp: pollStop_def split: if_splits list.splits input.splits)

section \<open>reflector.go: ListAndWatch\<close>

text \<open>
  A phase of \<open>ListAndWatch\<close> returns \<open>Inl\<close> of the error with which \<open>ListAndWatch\<close>
  returns at once, or \<open>Inr\<close> of what the next phase needs.
\<close>

definition initialOptions :: ListOptions where
  "initialOptions =
     \<lparr> ResourceVersion = ''0'', FieldSelector = [], TimeoutSeconds = None,
       AllowWatchBookmarks = False \<rparr>"

definition pickUpBounds ::
  "ListOptions \<Rightarrow> 's world \<Rightarrow> panic + ListOptions" where
  "pickUpBounds options w =
     (case createHashkeyListOptions (refl w) of
        Inl p \<Rightarrow> Inl p
      | Inr sel \<Rightarrow> Inr (appendFieldSelector options sel))"

definition boundsPhase ::
  "input list \<Rightarrow> 's world \<Rightarrow> (rerror option + ListOptions) outcome \<times> input list \<times> 's world" where
  "boundsPhase ins w =
     (if \<not> resetCh (refl w) then (Returns (Inr initialOptions), ins, w)
      else
        case isInitBounds (refl w) of
          Inl p \<Rightarrow> (Panics p, ins, w)
        | Inr True \<Rightarrow>
            (case ins of
               [] \<Rightarrow> if stopCh w then (Returns (Inl None), [], w) else (Blocks, [], w)
             | StopClosed # rest \<Rightarrow> (Returns (Inl None), rest, w \<lparr> stopCh := True \<rparr>)
             | ResetRead None # rest \<Rightarrow> (Returns (Inl None), rest, w)
             | ResetRead (Some signal) # rest \<Rightarrow>
                 (case setBounds (refl w) signal of
                    Inl p \<Rightarrow> (Panics p, rest, w)
                  | Inr r \<Rightarrow>
                      (case pickUpBounds initialOptions (w \<lparr> refl := r \<rparr>) of
                         Inl p \<Rightarrow> (Panics p, rest, w \<lparr> refl := r \<rparr>)
                       | Inr options \<Rightarrow> (Returns (Inr options), rest, w \<lparr> refl := r \<rparr>)))
             | _ \<Rightarrow> (Unscripted, ins, w))
        | Inr False \<Rightarrow>
            (case pollStop ins w of
               (None, ins', w') \<Rightarrow> (Unscripted, ins', w')
             | (Some True, ins', w') \<Rightarrow> (Returns (Inl None), ins', w')
             | (Some False, ins', w') \<Rightarrow>
                 (case pickUpBounds initialOptions w' of
                    Inl p \<Rightarrow> (Panics p, ins', w')
                  | Inr options \<Rightarrow> (Returns (Inr options), ins', w'))))"

text \<open>
  The list phase is the function literal of \<open>ListAndWatch\<close>.  It starts the helper
  goroutine, which runs the pager with the options and the page size, and waits for
  stop, a panic of the helper, or its result.  Its \<open>return nil\<close> on stop returns from
  the literal only: \<open>ListAndWatch\<close> goes on as after a list, with the resource version
  still empty.
\<close>

definition listPhase ::
  "'s Store \<Rightarrow> ListOptions \<Rightarrow> input list \<Rightarrow> 's world
   \<Rightarrow> (rerror option + string) outcome \<times> input list \<times> 's world" where
  "listPhase S options ins w0 =
     (let w = emit (GoListHelper (WatchListPageSize (refl w0)) options) w0 in
      case ins of
        [] \<Rightarrow> if stopCh w then (Returns (Inr []), [], w) else (Blocks, [], w)
      | StopClosed # rest \<Rightarrow> (Returns (Inr []), rest, w \<lparr> stopCh := True \<rparr>)
      | ListPanicked v # rest \<Rightarrow> (Panics (Repanic v), rest, w)
      | ListResult (Inl err) # rest \<Rightarrow> (Returns (Inl (Some (FailedToList err))), rest, w)
      | ListResult (Inr list) # rest \<Rightarrow>
          (case ListAccessor list of
             None \<Rightarrow> (Returns (Inl (Some UnableToUnderstandList)), rest, w)
           | Some resourceVersion \<Rightarrow>
               (case ExtractList list of
                  None \<Rightarrow> (Returns (Inl (Some UnableToUnderstandList)), rest, w)
                | Some items \<Rightarrow>
                    (case syncWith S items resourceVersion w of
                       (Some err, w1) \<Rightarrow> (Returns (Inl (Some (UnableToSync err))), rest, w1)
                     | (None, w1) \<Rightarrow>
                         (Returns (Inr resourceVersion), rest,
                          w1 \<lparr> refl := setLastSyncResourceVersion resourceVersion (refl w1) \<rparr>))))
      | _ \<Rightarrow> (Unscripted, ins, w))"

text \<open>
  The connection-refused test of the watch loop: a \<open>*url.Error\<close> wrapping a
  \<open>*net.OpError\<close> wrapping the errno \<open>ECONNREFUSED\<close>.
\<close>

definition isConnRefused :: "exterr \<Rightarrow> bool" where
  "isConnRefused err =
     (case err of
        UrlError urlErr \<Rightarrow>
          (case urlErr of
             OpError opErr \<Rightarrow> (case opErr of Errno errno \<Rightarrow> errno = ECONNREFUSED | _ \<Rightarrow> False)
           | _ \<Rightarrow> False)
      | _ \<Rightarrow> False)"

definition watchOptions :: "int \<Rightarrow> string \<Rightarrow> 's world \<Rightarrow> panic + ListOptions" where
  "watchOptions timeoutSeconds resourceVersion w =
     (let options = \<lparr> ResourceVersion = resourceVersion, FieldSelector = [],
                       TimeoutSeconds = Some timeoutSeconds, AllowWatchBookmarks = False \<rparr>
      in if resetCh (refl w) then pickUpBounds options w else Inr options)"

definition logWatchError :: "exterr \<Rightarrow> 's world \<Rightarrow> 's world" where
  "logWatchError err w =
     (if err = EOF then w
      else if err = ErrUnexpectedEOF then w
      else HandleError (FailedToWatch err) w)"

function watchPhase ::
  "'s Store \<Rightarrow> input list \<Rightarrow> string \<Rightarrow> 's world \<Rightarrow> rerror option outcome \<times> input list \<times> 's world" where
  "watchPhase S ins resourceVersion w =
     (case pollStop ins w of
        (None, ins1, w1) \<Rightarrow> (Unscripted, ins1, w1)
      | (Some True, ins1, w1) \<Rightarrow> (Returns None, ins1, w1)
      | (Some False, ins1, w1) \<Rightarrow>
          (case ins1 of
             WatchResult timeoutSeconds res # ins2 \<Rightarrow>
               (case watchOptions timeoutSeconds resourceVersion w1 of
                  Inl p \<Rightarrow> (Panics p, ins2, w1)
                | Inr options \<Rightarrow>
                    (case res of
                       Some err \<Rightarrow>
                         if isConnRefused err
                         then watchPhase S ins2 resourceVersion
                                (emit (Sleep second) (logWatchError err (emit (WatchCall options) w1)))
                         else (Returns None, ins2, logWatchError err (emit (WatchCall options) w1))
                     | None \<Rightarrow>
                         (case watchHandler S ins2 resourceVersion (emit (WatchCall options) w1) of
                            (Returns None, resourceVersion', ins3, w2) \<Rightarrow>
                              watchPhase S ins3 resourceVersion' w2
                          | (Returns (Some err), resourceVersion', ins3, w2) \<Rightarrow>
                              if err = errorResetRequested
                              then (Returns (Some err), ins3, emit SendCancel w2)
                              else (Returns None, ins3, w2)
                          | (Panics p, resourceVersion', ins3, w2) \<Rightarrow> (Panics p, ins3, w2)
                          | (Blocks, resourceVersion', ins3, w2) \<Rightarrow> (Blocks, ins3, w2)
                          | (Unscripted, resourceVersion', ins3, w2) \<Rightarrow> (Unscripted, ins3, w2))))
           | _ \<Rightarrow> (Unscripted, ins1, w1)))"
  by pat_completeness auto
termination
proof (relation "measure (\<lambda>(S, ins, rv, w). length ins)", goal_cases)
  case 1
  show ?case by simp
next
  case (2 S ins rv w x y x2 xa ya x21 x22 x61 x62 b xb yb x1 xc yc xd yd)
  then have "pollStop ins w = (Some False, x21 # x22, ya)"
    and "watchHandler S x22 rv (emit (WatchCall b) ya) = (Returns None, xc, xd, yd)"
    by (metis, metis)
  then have "length (x21 # x22) \<le> length ins" and "length xd < length x22"
    by (auto dest: pollStop_consumes watchHandler_returns_nil_consumes)
  then show ?case by simp
next
  case (3 S ins rv w x y x2 xa ya x21 x22 x61 x62 b x2a)
  then have "pollStop ins w = (Some False, x21 # x22, ya)"
    by metis
  then have "length (x21 # x22) \<le> length ins"
    by (rule pollStop_consumes)
  then show ?case by simp
qed

declare watchPhase.simps [simp del]

text \<open>
  \<open>ListAndWatch\<close>: the three phases in order.  The resync worker is started before the
  watch loop; \<open>defer close(cancelCh)\<close> runs when the function returns or panics after
  that point.
\<close>

definition ListAndWatch ::
  "'s Store \<Rightarrow> input list \<Rightarrow> 's world \<Rightarrow> rerror option outcome \<times> input list \<times> 's world" where
  "ListAndWatch S ins w =
     (case boundsPhase ins w of
        (Returns (Inl err), ins1, w1) \<Rightarrow> (Returns err, ins1, w1)
      | (Panics p, ins1, w1) \<Rightarrow> (Panics p, ins1, w1)
      | (Blocks, ins1, w1) \<Rightarrow> (Blocks, ins1, w1)
      | (Unscripted, ins1, w1) \<Rightarrow> (Unscripted, ins1, w1)
      | (Returns (Inr options), ins1, w1) \<Rightarrow>
          (case listPhase S options ins1 w1 of
             (Returns (Inl err), ins2, w2) \<Rightarrow> (Returns err, ins2, w2)
           | (Panics p, ins2, w2) \<Rightarrow> (Panics p, ins2, w2)
           | (Blocks, ins2, w2) \<Rightarrow> (Blocks, ins2, w2)
           | (Unscripted, ins2, w2) \<Rightarrow> (Unscripted, ins2, w2)
           | (Returns (Inr resourceVersion), ins2, w2) \<Rightarrow>
               (case watchPhase S ins2 resourceVersion (emit GoResyncWorker w2) of
                  (out, ins3, w3) \<Rightarrow> (out, ins3, deferred CloseCancel out w3))))"

section \<open>reflector.go: Run\<close>

text \<open>
  The loop of \<open>Run\<close> for a reflector with a reset channel: it leaves the loop only
  through \<open>break\<close>, on an error other than \<open>errorResetRequested\<close>.  A loop that never
  ends has the value \<open>None\<close>.
\<close>

partial_function (option) resetLoop ::
  "'s Store \<Rightarrow> input list \<Rightarrow> 's world \<Rightarrow> (unit outcome \<times> input list \<times> 's world) option" where
  "resetLoop S ins w =
     (case ListAndWatch S ins w of
        (Returns None, ins', w') \<Rightarrow> resetLoop S ins' w'
      | (Returns (Some err), ins', w') \<Rightarrow>
          if err = errorResetRequested then resetLoop S ins' w'
          else Some (Returns (), ins', HandleError (RunError err) w')
      | (Panics p, ins', w') \<Rightarrow> Some (Panics p, ins', w')
      | (Blocks, ins', w') \<Rightarrow> Some (Blocks, ins', w')
      | (Unscripted, ins', w') \<Rightarrow> Some (Unscripted, ins', w'))"

text \<open>The function literal that \<open>Run\<close> passes to \<open>wait.Until\<close>.\<close>

definition runBody ::
  "'s Store \<Rightarrow> input list \<Rightarrow> 's world \<Rightarrow> (unit outcome \<times> input list \<times> 's world) option" where
  "runBody S ins w =
     (if \<not> resetCh (refl w) then
        (case ListAndWatch S ins w of
           (Returns None, ins', w') \<Rightarrow> Some (Returns (), ins', w')
         | (Returns (Some err), ins', w') \<Rightarrow> Some (Returns (), ins', HandleError (RunError err) w')
         | (Panics p, ins', w') \<Rightarrow> Some (Panics p, ins', w')
         | (Blocks, ins', w') \<Rightarrow> Some (Blocks, ins', w')
         | (Unscripted, ins', w') \<Rightarrow> Some (Unscripted, ins', w'))
      else resetLoop S ins w)"

text \<open>
  Modelled from the spec: \<open>wait.Until\<close> is code of the repository outside the source
  files.  The spec has \<open>Run\<close> execute \<open>ListAndWatch\<close> in a loop spaced by \<open>period\<close> and
  exit when stop fires: the loop looks at the stop channel, runs the function, and waits
  for the period to elapse or for stop.
\<close>

partial_function (option) waitUntil ::
  "(input list \<Rightarrow> 's world \<Rightarrow> (unit outcome \<times> input list \<times> 's world) option)
   \<Rightarrow> input list \<Rightarrow> 's world \<Rightarrow> (unit outcome \<times> input list \<times> 's world) option" where
  "waitUntil f ins w =
     (case pollStop ins w of
        (None, ins1, w1) \<Rightarrow> Some (Unscripted, ins1, w1)
      | (Some stopped, ins1, w1) \<Rightarrow>
          if stopped then Some (Returns (), ins1, w1)
          else
          Option.bind (f ins1 w1)
            (\<lambda>res. case res of
               (Returns u, ins2, w2) \<Rightarrow>
                 (case ins2 of
                    [] \<Rightarrow> if stopCh w2 then Some (Returns (), [], w2) else Some (Unscripted, [], w2)
                  | StopClosed # ins3 \<Rightarrow> Some (Returns (), ins3, w2 \<lparr> stopCh := True \<rparr>)
                  | PeriodElapsed # ins3 \<Rightarrow> waitUntil f ins3 w2
                  | _ \<Rightarrow> Some (Unscripted, ins2, w2))
             | (Panics p, ins2, w2) \<Rightarrow> Some (Panics p, ins2, w2)
             | (Blocks, ins2, w2) \<Rightarrow> Some (Blocks, ins2, w2)
             | (Unscripted, ins2, w2) \<Rightarrow> Some (Unscripted, ins2, w2)))"

definition Run ::
  "'s Store \<Rightarrow> input list \<Rightarrow> 's world \<Rightarrow> (unit outcome \<times> input list \<times> 's world) option" where
  "Run S ins w = waitUntil (runBody S) ins w"

section \<open>A keyed store\<close>

text \<open>
  Modelled from the spec: the implementations of \<open>Store\<close> are code of the repository
  outside the source files.  The spec has the store hold the objects of the collection:
  \<open>Replace\<close> replaces (does not merge) its content by the listed items, \<open>Add\<close> and
  \<open>Update\<close> put an object in, \<open>Delete\<close> takes it out.  Objects are keyed by their name;
  an object without metadata has no key and is refused.
\<close>

type_synonym keyed = "(string \<times> RuntimeObject) list"

definition keyOf :: "RuntimeObject \<Rightarrow> string option" where
  "keyOf obj = map_option ObjName (accessor obj)"

definition keyedPut :: "RuntimeObject \<Rightarrow> keyed \<Rightarrow> exterr option \<times> keyed" where
  "keyedPut obj st =
     (case keyOf obj of
        None \<Rightarrow> (Some (OtherError ''object has no key''), st)
      | Some k \<Rightarrow> (None, AList.update k obj st))"

definition keyedDelete :: "RuntimeObject \<Rightarrow> keyed \<Rightarrow> exterr option \<times> keyed" where
  "keyedDelete obj st =
     (case keyOf obj of
        None \<Rightarrow> (Some (OtherError ''object has no key''), st)
      | Some k \<Rightarrow> (None, AList.delete k st))"

fun keyedFill :: "RuntimeObject list \<Rightarrow> keyed \<Rightarrow> keyed option" where
  "keyedFill [] st = Some st"
| "keyedFill (obj # objs) st =
     (case keyOf obj of None \<Rightarrow> None | Some k \<Rightarrow> keyedFill objs (AList.update k obj st))"

definition keyedReplace :: "RuntimeObject list \<Rightarrow> string \<Rightarrow> keyed \<Rightarrow> exterr option \<times> keyed" where
  "keyedReplace items resourceVersion st =
     (case keyedFill items [] of
        None \<Rightarrow> (Some (OtherError ''object has no key''), st)
      | Some st' \<Rightarrow> (None, st'))"

definition keyedStore :: "keyed Store" where
  "keyedStore = \<lparr> Add = keyedPut, Update = keyedPut, Delete = keyedDelete, Replace = keyedReplace \<rparr>"

section \<open>pod\_container\_deletor.go\<close>

text \<open>
  \<open>kubecontainer.ContainerStatus\<close> and \<open>kubecontainer.PodStatus\<close> are declared outside
  the source file; the records have the fields the file reads.  \<open>CreatedAt\<close> is a point in
  time, as nanoseconds.  The pointers in \<open>ContainerStatuses\<close> and the pod status itself
  are taken to be non-nil.
\<close>

datatype ContainerState =
    ContainerStateCreated
  | ContainerStateRunning
  | ContainerStateExited
  | ContainerStateUnknown

record ContainerID =
  IDType :: string
  ID :: string

record ContainerStatus =
  StatusID :: ContainerID
  Name :: string
  State :: ContainerState
  CreatedAt :: int

record PodStatus =
  ContainerStatuses :: "ContainerStatus list"

text \<open>\<open>ContainerID.String\<close> renders \<open>type://id\<close>.\<close>

definition ContainerIDString :: "ContainerID \<Rightarrow> string" where
  "ContainerIDString c = IDType c @ ''://'' @ ID c"

text \<open>
  The \<open>runtime\<close> field is an interface value: \<open>None\<close> is nil.  A runtime service is
  represented by the type parameter \<open>'rt\<close>.
\<close>

record 'rt podContainerDeletor =
  containersToKeep :: int
  runtime :: "'rt option"

definition newPodContainerDeletor :: "'krt \<Rightarrow> int \<Rightarrow> 'rt podContainerDeletor" where
  "newPodContainerDeletor rt keep = \<lparr> containersToKeep = keep, runtime = None \<rparr>"

definition setRuntime :: "'rt podContainerDeletor \<Rightarrow> 'rt \<Rightarrow> 'rt podContainerDeletor" where
  "setRuntime p runtimeService = p \<lparr> runtime := Some runtimeService \<rparr>"

definition matchedContainer :: "string \<Rightarrow> PodStatus \<Rightarrow> ContainerStatus option" where
  "matchedContainer filterContainerId podStatus =
     (if filterContainerId = [] then None
      else find (\<lambda>containerStatus. ID (StatusID containerStatus) = filterContainerId)
             (ContainerStatuses podStatus))"

text \<open>
  \<open>sort.Sort\<close> with \<open>Less a b = a.CreatedAt.After(b.CreatedAt)\<close> orders the candidates
  from the latest to the earliest; the order it gives to equal creation times is not
  fixed by Go, here it is the one of a stable insertion sort.
\<close>

definition sortByCreated :: "ContainerStatus list \<Rightarrow> ContainerStatus list" where
  "sortByCreated cs = sort_key (\<lambda>c. - CreatedAt c) cs"

definition getContainersToDeleteInPod ::
  "string \<Rightarrow> PodStatus \<Rightarrow> int \<Rightarrow> panic + ContainerStatus list" where
  "getContainersToDeleteInPod filterContainerID podStatus keep =
     (let matched = matchedContainer filterContainerID podStatus in
      if filterContainerID \<noteq> [] \<and> matched = None then Inr []
      else
        let candidates =
              filter (\<lambda>containerStatus.
                        State containerStatus = ContainerStateExited \<and>
                        (case matched of None \<Rightarrow> True
                         | Some m \<Rightarrow> Name m = Name containerStatus))
                (ContainerStatuses podStatus)
        in if int (length candidates) \<le> keep then Inr []
           else if keep < 0 then Inl SliceBoundsOutOfRange
           else Inr (drop (nat keep) (sortByCreated candidates)))"

text \<open>
  \<open>deleteContainersInPod\<close> returns the container ids it asked the runtime to remove, in
  order; calling \<open>RemoveContainer\<close> on the nil interface panics at the first candidate.
\<close>

definition deleteContainersInPod ::
  "'rt podContainerDeletor \<Rightarrow> string \<Rightarrow> PodStatus \<Rightarrow> bool \<Rightarrow> panic + string list" where
  "deleteContainersInPod p filterContainerID podStatus removeAll' =
     (let keep = (if removeAll' then 0 else containersToKeep p);
          filterID = (if removeAll' then [] else filterContainerID)
      in case getContainersToDeleteInPod filterID podStatus keep of
           Inl e \<Rightarrow> Inl e
         | Inr candidates \<Rightarrow>
             (case candidates of
                [] \<Rightarrow> Inr []
              | _ # _ \<Rightarrow>
                  (case runtime p of
                     None \<Rightarrow> Inl NilPointerDereference
                   | Some _ \<Rightarrow> Inr (map (\<lambda>candidate. ContainerIDString (StatusID candidate)) candidates))))"

section \<open>Notions used in the statements\<close>

text \<open>
  An event is counted by \<open>watchHandlerHelper\<close> when it is not an \<open>Error\<close> event, passes
  the type filter and has metadata: these are the events for which \<open>eventCount\<close> is
  incremented.
\<close>

definition counted :: "string option \<Rightarrow> Event \<Rightarrow> bool" where
  "counted expected event =
     (Type event \<noteq> Error
      \<and> (expected = None \<or> expected = dynType (Object event))
      \<and> accessor (Object event) \<noteq> None)"

text \<open>The error for which the watch loop sleeps and retries.\<close>

definition connRefused :: exterr where
  "connRefused = UrlError (OpError (Errno ECONNREFUSED))"

section \<open>Concrete inputs\<close>

definition objA1 :: RuntimeObject where
  "objA1 = \<lparr> dynType = Some ''Pod'',
             accessor = Some \<lparr> ObjName = ''A'', ObjResourceVersion = ''1'' \<rparr> \<rparr>"

definition objB2 :: RuntimeObject where
  "objB2 = \<lparr> dynType = Some ''Pod'',
             accessor = Some \<lparr> ObjName = ''B'', ObjResourceVersion = ''2'' \<rparr> \<rparr>"

definition objB6 :: RuntimeObject where
  "objB6 = \<lparr> dynType = Some ''Pod'',
             accessor = Some \<lparr> ObjName = ''B'', ObjResourceVersion = ''6'' \<rparr> \<rparr>"

definition objC7 :: RuntimeObject where
  "objC7 = \<lparr> dynType = Some ''Pod'',
             accessor = Some \<lparr> ObjName = ''C'', ObjResourceVersion = ''7'' \<rparr> \<rparr>"

definition objA8 :: RuntimeObject where
  "objA8 = \<lparr> dynType = Some ''Pod'',
             accessor = Some \<lparr> ObjName = ''A'', ObjResourceVersion = ''8'' \<rparr> \<rparr>"

definition objService :: RuntimeObject where
  "objService = \<lparr> dynType = Some ''Service'',
                  accessor = Some \<lparr> ObjName = ''S'', ObjResourceVersion = ''9'' \<rparr> \<rparr>"


text \<open>
  A reflector for pods on an empty keyed store, without and with a reset channel, before
  \<open>Run\<close>; and the script of the cold start: the list returns A@1 and B@2 at version 5,
  the watch opens and delivers Modified B@6, Added C@7 and Deleted A@8.
\<close>

definition coldWorld :: "keyed world" where
  "coldWorld =
     \<lparr> refl = NewNamedReflector ''pods'' (Some ''Pod'') [] 0, stopCh = False, effects = [] \<rparr>"

definition resetWorld :: "keyed world" where
  "resetWorld =
     \<lparr> refl = NewReflectorWithReset ''pods'' (Some ''Pod'') [] 0 True [], stopCh = False,
       effects = [] \<rparr>"

definition coldList :: input where
  "coldList = ListResult (Inr \<lparr> ListAccessor = Some ''5'', ExtractList = Some [objA1, objB2] \<rparr>)"

definition coldScript :: "input list" where
  "coldScript =
     [coldList,
      StopOpen,
      WatchResult 300 None,
      WatchEvent \<lparr> Type = Modified, Object = objB6 \<rparr>,
      WatchEvent \<lparr> Type = Added, Object = objC7 \<rparr>,
      WatchEvent \<lparr> Type = Deleted, Object = objA8 \<rparr>]"

definition exReflector :: "unit Reflector" where
  "exReflector = NewNamedReflector ''r'' None () 0"

definition exExited :: ContainerStatus where
  "exExited = \<lparr> StatusID = \<lparr> IDType = ''docker'', ID = ''c1'' \<rparr>, Name = ''app'',
                State = ContainerStateExited, CreatedAt = 10 \<rparr>"

definition exPod :: PodStatus where
  "exPod = \<lparr> ContainerStatuses = [exExited] \<rparr>"


section \<open>Theorems\<close>

lemma index_simps:
  "i < length xs \<Longrightarrow> index xs i = Inr (xs ! i)"
  "\<not> i < length xs \<Longrightarrow> index xs i = Inl (IndexOutOfRange i (length xs))"
  by (simp_all add: index_def)

subsection \<open>Facts about the state\<close>

lemma emit_stopCh [simp]: "stopCh (emit e w) = stopCh w"
  by (simp add: emit_def)

lemma logWatchError_stopCh [simp]: "stopCh (logWatchError e w) = stopCh w"
  by (simp add: logWatchError_def HandleError_def)

lemma watchOptions_effects [simp]:
  "watchOptions t rv (w \<lparr> effects := es \<rparr>) = watchOptions t rv w"
  by (simp add: watchOptions_def pickUpBounds_def Let_def)

lemma watchHandlerHelper_keeps:
  assumes "watchHandlerHelper S event rv n w = (err, n', rv', w')"
  shows "expectedType (refl w') = expectedType (refl w) \<and> name (refl w') = name (refl w)
       \<and> stopCh w' = stopCh w
       \<and> n' = (if counted (expectedType (refl w)) event then n + 1 else n)
       \<and> (err = None) = (Type event \<noteq> Error)"
  using assms
  by (auto simp: watchHandlerHelper_def HandleError_def emit_def setStore_def counted_def
        setLastSyncResourceVersion_def Let_def
        split: if_splits option.splits EventType.splits prod.splits)

lemma syncWith_stopCh:
  "syncWith S items rv w = (err, w') \<Longrightarrow> stopCh w' = stopCh w"
  by (auto simp: syncWith_def setStore_def emit_def Let_def split: prod.splits)

subsection \<open>The cold start\<close>


subsection \<open>The type filter\<close>




subsection \<open>Bookmarks\<close>

text \<open>
  A \<open>Bookmark\<close> event that passes the type filter and has metadata makes no call of the
  store: it only moves the resource version, behind the pointer and in the reflector, to
  the event's, and is counted.
\<close>

theorem watchHandlerHelper_bookmark:
  assumes "Type event = Bookmark"
    and "expectedType (refl w) = None \<or> expectedType (refl w) = dynType (Object event)"
    and "accessor (Object event) = Some meta"
  shows "watchHandlerHelper S event rv n w =
           (None, n + 1, ObjResourceVersion meta,
            w \<lparr> refl := (refl w) \<lparr> lastSyncResourceVersion := ObjResourceVersion meta \<rparr> \<rparr>)"
  using assms
  by (auto simp: watchHandlerHelper_def setLastSyncResourceVersion_def Let_def)

theorem watchHandlerHelper_bookmark_witness:
  "watchHandlerHelper keyedStore \<lparr> Type = Bookmark, Object = objC7 \<rparr> ''5'' 0 coldWorld =
     (None, 1, ''7'', coldWorld \<lparr> refl := (refl coldWorld) \<lparr> lastSyncResourceVersion := ''7'' \<rparr> \<rparr>)"
proof -
  have 1: "Type \<lparr> Type = Bookmark, Object = objC7 \<rparr> = Bookmark" by simp
  have 2: "expectedType (refl coldWorld) = None
           \<or> expectedType (refl coldWorld) = dynType (Object \<lparr> Type = Bookmark, Object = objC7 \<rparr>)"
    by (simp add: coldWorld_def NewNamedReflector_def objC7_def)
  have 3: "accessor (Object \<lparr> Type = Bookmark, Object = objC7 \<rparr>)
           = Some \<lparr> ObjName = ''C'', ObjResourceVersion = ''7'' \<rparr>"
    by (simp add: objC7_def)
  show ?thesis
    using watchHandlerHelper_bookmark [OF 1 2 3, of keyedStore "''5''" 0] by simp
qed

subsection \<open>The watch handler and the script\<close>

text \<open>
  A handler that stays blocked has used up the script with stop open, and returns
  \<open>errorStopRequested\<close> in the same state once stop closes; a handler that returned did
  so on an input, whatever follows in the script.
\<close>

lemma watchHandlerLoop_blocks:
  assumes "watchHandlerLoop S ins rv n w = (Blocks, n', rv', ins', w')"
  shows "ins' = [] \<and> \<not> stopCh w \<and> \<not> stopCh w'
       \<and> watchHandlerLoop S (ins @ [StopClosed]) rv n w =
           (Returns (Some errorStopRequested), n', rv', [], w' \<lparr> stopCh := True \<rparr>)"
  using assms
proof (induction ins arbitrary: rv n w)
  case Nil
  then show ?case by (auto split: if_splits)
next
  case (Cons i ins)
  show ?case
  proof (cases i)
    case (WatchEvent ev)
    obtain err m rv1 w1 where h: "watchHandlerHelper S ev rv n w = (err, m, rv1, w1)"
      by (metis prod_cases4)
    with Cons.prems WatchEvent have e: "err = None"
      and r: "watchHandlerLoop S ins rv1 m w1 = (Blocks, n', rv', ins', w')"
      by (auto split: option.splits)
    show ?thesis
      using Cons.IH [OF r] h e WatchEvent watchHandlerHelper_keeps [OF h] by simp
  qed (use Cons.prems in \<open>auto split: if_splits option.splits sum.splits\<close>)
qed

lemma watchHandlerLoop_returns_more:
  assumes "watchHandlerLoop S ins rv n w = (Returns r, n', rv', ins', w')" and "\<not> stopCh w"
  shows "watchHandlerLoop S (ins @ xs) rv n w = (Returns r, n', rv', ins' @ xs, w')"
  using assms
proof (induction ins arbitrary: rv n w)
  case Nil
  then show ?case by (auto split: if_splits)
next
  case (Cons i ins)
  show ?case
  proof (cases i)
    case (WatchEvent ev)
    obtain err m rv1 w1 where h: "watchHandlerHelper S ev rv n w = (err, m, rv1, w1)"
      by (metis prod_cases4)
    show ?thesis
    proof (cases err)
      case None
      with Cons.prems WatchEvent h
      have r: "watchHandlerLoop S ins rv1 m w1 = (Returns r, n', rv', ins', w')" by simp
      show ?thesis
        using Cons.IH [OF r] h None WatchEvent watchHandlerHelper_keeps [OF h] Cons.prems(2)
        by simp
    next
      case (Some e)
      with Cons.prems WatchEvent h show ?thesis by auto
    qed
  qed (use Cons.prems in \<open>auto split: if_splits option.splits sum.splits\<close>)
qed

lemma watchHandler_blocks:
  assumes "watchHandler S ins rv w = (Blocks, rv', ins', w')"
  shows "ins' = [] \<and> \<not> stopCh w \<and> \<not> stopCh w'
       \<and> watchHandler S (ins @ [StopClosed]) rv w =
           (Returns (Some errorStopRequested), rv', [], emit WatchStop (w' \<lparr> stopCh := True \<rparr>))"
proof -
  obtain out n1 rv1 ins1 w1 where h: "watchHandlerLoop S ins rv 0 w = (out, n1, rv1, ins1, w1)"
    by (metis prod_cases5)
  with assms have "out = Blocks" "rv1 = rv'" "ins1 = ins'" "w1 = w'"
    by (auto simp: watchHandler_def deferred_def split: outcome.splits)
  with h watchHandlerLoop_blocks [of S ins rv 0 w n1 rv' ins' w'] show ?thesis
    by (simp add: watchHandler_def deferred_def)
qed

lemma watchHandler_returns_more:
  assumes "watchHandler S ins rv w = (Returns r, rv', ins', w')" and "\<not> stopCh w"
  shows "watchHandler S (ins @ xs) rv w = (Returns r, rv', ins' @ xs, w')"
proof -
  obtain out n1 rv1 ins1 w1 where h: "watchHandlerLoop S ins rv 0 w = (out, n1, rv1, ins1, w1)"
    by (metis prod_cases5)
  with assms have "out = Returns r" "rv1 = rv'" "ins1 = ins'" "w' = emit WatchStop w1"
    by (auto simp: watchHandler_def deferred_def split: outcome.splits)
  with h watchHandlerLoop_returns_more [of S ins rv 0 w r n1 rv' ins' w1 xs] assms(2)
  show ?thesis
    by (simp add: watchHandler_def deferred_def)
qed

subsection \<open>The watch loop\<close>

lemma watchPhase_stopped:
  assumes "stopCh w"
  shows "watchPhase S ins rv w = (Returns None, ins, w)"
  using assms by (subst watchPhase.simps) (simp add: pollStop_def)

text \<open>One turn of the watch loop while the stop channel is open.\<close>

lemma watchPhase_turn:
  assumes "\<not> stopCh w"
  shows "watchPhase S (StopOpen # WatchResult t res # ins2) rv w =
     (case watchOptions t rv w of
        Inl p \<Rightarrow> (Panics p, ins2, w)
      | Inr options \<Rightarrow>
          (case res of
             Some err \<Rightarrow>
               if isConnRefused err
               then watchPhase S ins2 rv
                      (emit (Sleep second) (logWatchError err (emit (WatchCall options) w)))
               else (Returns None, ins2, logWatchError err (emit (WatchCall options) w))
           | None \<Rightarrow>
               (case watchHandler S ins2 rv (emit (WatchCall options) w) of
                  (Returns None, rv', ins3, w2) \<Rightarrow> watchPhase S ins3 rv' w2
                | (Returns (Some err), rv', ins3, w2) \<Rightarrow>
                    if err = errorResetRequested
                    then (Returns (Some err), ins3, emit SendCancel w2)
                    else (Returns None, ins3, w2)
                | (Panics p, rv', ins3, w2) \<Rightarrow> (Panics p, ins3, w2)
                | (Blocks, rv', ins3, w2) \<Rightarrow> (Blocks, ins3, w2)
                | (Unscripted, rv', ins3, w2) \<Rightarrow> (Unscripted, ins3, w2))))"
  using assms by (subst watchPhase.simps) (simp add: pollStop_def)

lemma watchPhase_blocks_shape:
  assumes "watchPhase S ins rv w = (Blocks, ins', w')"
  shows "\<not> stopCh w \<and> (\<exists>t res ins2. ins = StopOpen # WatchResult t res # ins2)"
  using assms
  by (subst (asm) watchPhase.simps)
    (auto simp: pollStop_def split: if_splits list.splits input.splits)

lemma watchPhase_blocks:
  assumes "watchPhase S ins rv w = (Blocks, ins', w')"
  shows "ins' = [] \<and> \<not> stopCh w'
       \<and> watchPhase S (ins @ [StopClosed]) rv w =
           (Returns None, [], emit WatchStop (w' \<lparr> stopCh := True \<rparr>))"
  using assms
proof (induction "length ins" arbitrary: ins rv w rule: less_induct)
  case less
  from watchPhase_blocks_shape [OF less.prems] obtain t res ins2 where
    ns: "\<not> stopCh w" and shape: "ins = StopOpen # WatchResult t res # ins2"
    by blast
  note st = watchPhase_turn [OF ns, of S t res _ rv]
  from less.prems shape st obtain options where o: "watchOptions t rv w = Inr options"
    by (cases "watchOptions t rv w") auto
  show ?case
  proof (cases res)
    case (Some err)
    with less.prems shape o st have c: "isConnRefused err"
      and r: "watchPhase S ins2 rv
                (emit (Sleep second) (logWatchError err (emit (WatchCall options) w)))
              = (Blocks, ins', w')"
      by (auto split: if_splits)
    have "length ins2 < length ins" using shape by simp
    from less.hyps [OF this r] show ?thesis
      using shape o Some c st by simp
  next
    case None
    obtain out rv1 ins3 w2 where
      h: "watchHandler S ins2 rv (emit (WatchCall options) w) = (out, rv1, ins3, w2)"
      by (metis prod_cases4)
    have ns2: "\<not> stopCh (emit (WatchCall options) w)" using ns by simp
    show ?thesis
    proof (cases out)
      case (Returns r)
      with less.prems shape o None h st have rn: "r = None"
        and r: "watchPhase S ins3 rv1 w2 = (Blocks, ins', w')"
        by (auto split: option.splits if_splits)
      have "length ins3 < length ins2"
        using watchHandler_returns_nil_consumes
                [of S ins2 rv "emit (WatchCall options) w" rv1 ins3 w2] h Returns rn
        by simp
      then have "length ins3 < length ins"
        using shape by simp
      from less.hyps [OF this r]
      have ih: "ins' = [] \<and> \<not> stopCh w'
         \<and> watchPhase S (ins3 @ [StopClosed]) rv1 w2 =
             (Returns None, [], emit WatchStop (w' \<lparr> stopCh := True \<rparr>))" .
      have "watchHandler S (ins2 @ [StopClosed]) rv (emit (WatchCall options) w)
            = (Returns None, rv1, ins3 @ [StopClosed], w2)"
        using watchHandler_returns_more [OF _ ns2] h Returns rn by simp
      then show ?thesis
        using ih shape o None st by simp
    next
      case Blocks
      with less.prems shape o None h st have e: "ins3 = ins'" "w2 = w'"
        by auto
      from watchHandler_blocks [of S ins2 rv "emit (WatchCall options) w" rv1 ins' w'] h Blocks e
      show ?thesis
        using shape o None st by simp
    qed (use less.prems shape o None h st in auto)
  qed
qed

lemma isConnRefused_iff: "isConnRefused err = (err = connRefused)"
  by (auto simp: isConnRefused_def connRefused_def split: exterr.splits)


text \<open>
  When the stop channel is closed by the time the loop comes round after a refusal, the
  loop returns nil instead of calling \<open>Watch\<close> again.
\<close>

lemma watchPhase_refused_then_stopped:
  assumes "\<not> stopCh w" and "watchOptions t rv w = Inr options"
  shows "watchPhase S (StopOpen # WatchResult t (Some connRefused) # StopClosed # rest) rv w =
         (Returns None, rest,
          w \<lparr> stopCh := True,
              effects := effects w @ [WatchCall options, Handled (FailedToWatch connRefused),
                                       Sleep second] \<rparr>)"
proof -
  let ?w1 = "emit (Sleep second) (logWatchError connRefused (emit (WatchCall options) w))"
  have "watchPhase S (StopClosed # rest) rv ?w1 = (Returns None, rest, ?w1 \<lparr> stopCh := True \<rparr>)"
    using assms(1) by (subst watchPhase.simps) (simp add: pollStop_def)
  then show ?thesis
    using assms
    by (simp add: watchPhase_turn isConnRefused_iff logWatchError_def HandleError_def emit_def
          connRefused_def)
qed

subsection \<open>The phases before the watch loop\<close>

lemma boundsPhase_blocks:
  assumes "boundsPhase ins w = (Blocks, ins', w')"
  shows "ins' = [] \<and> w' = w \<and> \<not> stopCh w
       \<and> boundsPhase (ins @ [StopClosed]) w = (Returns (Inl None), [], w \<lparr> stopCh := True \<rparr>)"
  using assms
  by (auto simp: boundsPhase_def pollStop_def
        split: if_splits sum.splits bool.splits list.splits input.splits option.splits)

lemma boundsPhase_proceeds:
  assumes "boundsPhase ins w = (Returns (Inr options), ins1, w1)"
  shows "stopCh w1 = stopCh w
       \<and> (\<not> stopCh w \<longrightarrow> boundsPhase (ins @ xs) w = (Returns (Inr options), ins1 @ xs, w1))"
  using assms
  by (auto simp: boundsPhase_def pollStop_def
        split: if_splits sum.splits bool.splits list.splits input.splits option.splits)

lemma listPhase_blocks:
  assumes "listPhase S options ins w = (Blocks, ins', w')"
  shows "ins' = [] \<and> \<not> stopCh w \<and> \<not> stopCh w'
       \<and> listPhase S options (ins @ [StopClosed]) w
           = (Returns (Inr []), [], w' \<lparr> stopCh := True \<rparr>)"
  using assms
  by (auto simp: listPhase_def Let_def
        split: if_splits sum.splits list.splits input.splits option.splits prod.splits)

lemma listPhase_proceeds:
  assumes "listPhase S options ins w = (Returns (Inr rv), ins1, w1)" and "\<not> stopCh w1"
  shows "\<not> stopCh w
       \<and> listPhase S options (ins @ xs) w = (Returns (Inr rv), ins1 @ xs, w1)"
  using assms
  by (auto simp: listPhase_def Let_def setLastSyncResourceVersion_def
        split: if_splits sum.splits list.splits input.splits option.splits prod.splits
        dest: syncWith_stopCh)


subsection \<open>Run and the stop channel\<close>

text \<open>
  With the stop channel closed, \<open>ListAndWatch\<close> on a reflector that has a reset channel
  returns nil in its first phase and changes nothing; the loop of \<open>Run\<close> for such a
  reflector calls it again without looking at the stop channel, for ever.
\<close>

lemma ListAndWatch_stopped_reset:
  assumes "stopCh w" "resetCh (refl w)" "2 \<le> length (bounds (refl w))"
  shows "ListAndWatch S [] w = (Returns None, [], w)"
  using assms
  by (auto simp: ListAndWatch_def boundsPhase_def isInitBounds_def index_def pollStop_def
      split: sum.splits bool.splits)

lemma resetLoop_diverges:
  assumes "stopCh w" "resetCh (refl w)" "2 \<le> length (bounds (refl w))"
  shows "resetLoop S [] w = None"
proof (cases "resetLoop S [] w")
  case None
  then show ?thesis .
next
  case (Some y)
  have "\<not> (ins = [] \<and> stopCh v \<and> resetCh (refl v) \<and> 2 \<le> length (bounds (refl v)))"
    if "resetLoop T ins v = Some z" for T ins z and v :: "'a world"
  proof (rule resetLoop.raw_induct
      [where P = "\<lambda>T ins v z. \<not> (ins = [] \<and> stopCh v \<and> resetCh (refl v)
                                  \<and> 2 \<le> length (bounds (refl v)))", OF _ that])
    fix loop T ins z and v :: "'a world"
    assume ih: "\<And>T ins v z. loop T ins v = Some z \<Longrightarrow>
                 \<not> (ins = [] \<and> stopCh v \<and> resetCh (refl v) \<and> 2 \<le> length (bounds (refl v)))"
      and body: "(case ListAndWatch T ins v of
            (Returns None, ins', w') \<Rightarrow> loop T ins' w'
          | (Returns (Some err), ins', w') \<Rightarrow>
              if err = errorResetRequested then loop T ins' w'
              else Some (Returns (), ins', HandleError (RunError err) w')
          | (Panics p, ins', w') \<Rightarrow> Some (Panics p, ins', w')
          | (Blocks, ins', w') \<Rightarrow> Some (Blocks, ins', w')
          | (Unscripted, ins', w') \<Rightarrow> Some (Unscripted, ins', w')) = Some z"
    show "\<not> (ins = [] \<and> stopCh v \<and> resetCh (refl v) \<and> 2 \<le> length (bounds (refl v)))"
    proof
      assume a: "ins = [] \<and> stopCh v \<and> resetCh (refl v) \<and> 2 \<le> length (bounds (refl v))"
      then have "ListAndWatch T ins v = (Returns None, [], v)"
        using ListAndWatch_stopped_reset by blast
      with body have "loop T [] v = Some z" by simp
      from ih [OF this] a show False by simp
    qed
  qed
  from this [OF Some] assms show ?thesis by simp
qed

text \<open>
  Claim C3 fails on the code.  A reflector with a reset channel is run; the reset channel
  delivers the bounds \<open>[0, 1000]\<close>, and the stop channel is closed while the list helper is
  in flight.  \<open>ListAndWatch\<close> returns nil, and neither the function literal of \<open>Run\<close> nor
  \<open>Run\<close> returns: the inner loop has no exit on a nil result.
\<close>

theorem Run_reset_mode_never_returns:
  "runBody keyedStore [ResetRead (Some (Int64Slice [0, 1000])), StopClosed] resetWorld = None
   \<and> Run keyedStore [StopOpen, ResetRead (Some (Int64Slice [0, 1000])), StopClosed] resetWorld
       = None"
proof -
  let ?r = "ListAndWatch keyedStore [ResetRead (Some (Int64Slice [0, 1000])), StopClosed] resetWorld"
  have "fst ?r = Returns None" "fst (snd ?r) = []"
    and s: "stopCh (snd (snd ?r))" "resetCh (refl (snd (snd ?r)))"
      "2 \<le> length (bounds (refl (snd (snd ?r))))"
    by code_simp+
  then obtain w1 where l: "?r = (Returns None, [], w1)"
    and s1: "stopCh w1" "resetCh (refl w1)" "2 \<le> length (bounds (refl w1))"
    by (metis prod.collapse)
  have "resetLoop keyedStore [ResetRead (Some (Int64Slice [0, 1000])), StopClosed] resetWorld = None"
    by (subst resetLoop.simps) (simp add: l resetLoop_diverges [OF s1])
  moreover have "resetCh (refl resetWorld)" "\<not> stopCh resetWorld"
    by (simp_all add: resetWorld_def NewReflectorWithReset_def NewNamedReflector_def)
  ultimately show ?thesis
    by (simp add: Run_def waitUntil.simps [of _ "StopOpen # _"] pollStop_def runBody_def)
qed

text \<open>Without a reset channel \<open>Run\<close> returns when the stop channel closes during the list.\<close>

lemma Run_plain_mode_returns:
  "\<exists>w. Run keyedStore [StopOpen, StopClosed]
     coldWorld
   = Some (Returns (), [], w)"
  by (simp add: Run_def waitUntil.simps [of _ "StopOpen # _"] waitUntil.simps [of _ "[]"]
      pollStop_def runBody_def
      ListAndWatch_def boundsPhase_def listPhase_def watchPhase_stopped deferred_def emit_def
      coldWorld_def NewNamedReflector_def)

subsection \<open>Stop while blocked\<close>

text \<open>
  Claim C4, as the code has it.  Whenever \<open>ListAndWatch\<close> is blocked in one of its
  selects (waiting for the bounds, for the list helper, or for a watch event) and the
  stop channel is then closed, \<open>ListAndWatch\<close> returns nil with the reflector and its
  store as they were when it was blocked, and without calling the store.  Blocked
  waiting for the bounds it does nothing more; blocked in the watch handler it only runs
  the deferred \<open>w.Stop()\<close> and \<open>close(cancelCh)\<close>; blocked waiting for the list helper
  it still starts the resync worker, and returns at the stop check of the watch loop.
\<close>

theorem ListAndWatch_stop_while_blocked:
  assumes "ListAndWatch S ins w = (Blocks, ins', w')"
  shows "\<exists>ds. ListAndWatch S (ins @ [StopClosed]) w =
                (Returns None, [], w' \<lparr> stopCh := True, effects := effects w' @ ds \<rparr>)
            \<and> (ds = [] \<and> boundsPhase ins w = (Blocks, ins', w')
                \<or> ds = [GoResyncWorker, CloseCancel]
                   \<and> (\<exists>options ins1 w1. listPhase S options ins1 w1 = (Blocks, ins', w'))
                \<or> ds = [WatchStop, CloseCancel]
                   \<and> (\<exists>ins2 rv w2. watchPhase S ins2 rv w2 = (Blocks, ins', w')))"
proof -
  obtain o1 ins1 w1 where b: "boundsPhase ins w = (o1, ins1, w1)"
    by (metis prod_cases3)
  show ?thesis
  proof (cases o1)
    case Blocks
    with assms b have e: "ins' = ins1" "w' = w1" by (auto simp: ListAndWatch_def)
    with boundsPhase_blocks [of ins w ins' w'] b Blocks
    have "ListAndWatch S (ins @ [StopClosed]) w =
            (Returns None, [], w' \<lparr> stopCh := True, effects := effects w' @ [] \<rparr>)"
      by (simp add: ListAndWatch_def)
    then show ?thesis using b Blocks e by blast
  next
    case (Returns x)
    then obtain options where x: "x = Inr options"
      using assms b by (cases x) (auto simp: ListAndWatch_def)
    note bp = boundsPhase_proceeds [of ins w options ins1 w1 "[StopClosed]"]
    obtain o2 ins2 w2 where l: "listPhase S options ins1 w1 = (o2, ins2, w2)"
      by (metis prod_cases3)
    show ?thesis
    proof (cases o2)
      case Blocks
      with assms b l Returns x have e: "ins' = ins2" "w' = w2" by (auto simp: ListAndWatch_def)
      from listPhase_blocks [of S options ins1 w1 ins' w'] l Blocks e bp b Returns x
      have "ListAndWatch S (ins @ [StopClosed]) w =
              (Returns None, [],
               emit CloseCancel (emit GoResyncWorker (w' \<lparr> stopCh := True \<rparr>)))"
        by (simp add: ListAndWatch_def watchPhase_stopped deferred_def)
      then have "ListAndWatch S (ins @ [StopClosed]) w =
              (Returns None, [],
               w' \<lparr> stopCh := True, effects := effects w' @ [GoResyncWorker, CloseCancel] \<rparr>)"
        by (simp add: emit_def)
      then show ?thesis using l Blocks e by blast
    next
      case (Returns y)
      then obtain rv where y: "y = Inr rv"
        using assms b l x \<open>o1 = Returns x\<close> by (cases y) (auto simp: ListAndWatch_def)
      obtain o3 ins3 w3 where
        p: "watchPhase S ins2 rv (emit GoResyncWorker w2) = (o3, ins3, w3)"
        by (metis prod_cases3)
      with assms b l x y Returns \<open>o1 = Returns x\<close>
      have o3: "o3 = Blocks" and e: "ins' = ins3" "w' = w3"
        by (auto simp: ListAndWatch_def deferred_def split: outcome.splits)
      from watchPhase_blocks [of S ins2 rv "emit GoResyncWorker w2" ins' w'] p o3 e
      have wb: "ins' = []" "\<not> stopCh w'"
        "watchPhase S (ins2 @ [StopClosed]) rv (emit GoResyncWorker w2)
           = (Returns None, [], emit WatchStop (w' \<lparr> stopCh := True \<rparr>))"
        by simp_all
      from watchPhase_blocks_shape [of S ins2 rv "emit GoResyncWorker w2" ins3 w3] p o3
      have ns2: "\<not> stopCh w2" by simp
      note lp = listPhase_proceeds [of S options ins1 w1 rv ins2 w2 "[StopClosed]"]
      have "\<not> stopCh w" using bp lp ns2 b l x y Returns \<open>o1 = Returns x\<close> by simp
      then have "ListAndWatch S (ins @ [StopClosed]) w =
          (Returns None, [], emit CloseCancel (emit WatchStop (w' \<lparr> stopCh := True \<rparr>)))"
        using bp lp ns2 b l x y Returns \<open>o1 = Returns x\<close> wb
        by (simp add: ListAndWatch_def deferred_def)
      then have "ListAndWatch S (ins @ [StopClosed]) w =
          (Returns None, [],
           w' \<lparr> stopCh := True, effects := effects w' @ [WatchStop, CloseCancel] \<rparr>)"
        by (simp add: emit_def)
      then show ?thesis using p o3 e by blast
    qed (use assms b l x \<open>o1 = Returns x\<close> in \<open>auto simp: ListAndWatch_def\<close>)
  qed (use assms b in \<open>auto simp: ListAndWatch_def\<close>)
qed

theorem ListAndWatch_stop_while_blocked_witness:
  "fst (ListAndWatch keyedStore coldScript coldWorld) = Blocks
   \<and> (\<exists>ds. ListAndWatch keyedStore (coldScript @ [StopClosed]) coldWorld =
            (Returns None, [],
             (snd (snd (ListAndWatch keyedStore coldScript coldWorld)))
               \<lparr> stopCh := True,
                 effects := effects (snd (snd (ListAndWatch keyedStore coldScript coldWorld)))
                            @ ds \<rparr>))"
proof -
  have b: "fst (ListAndWatch keyedStore coldScript coldWorld) = Blocks"
    and i: "fst (snd (ListAndWatch keyedStore coldScript coldWorld)) = []"
    by code_simp+
  have h: "ListAndWatch keyedStore coldScript coldWorld =
        (Blocks, [], snd (snd (ListAndWatch keyedStore coldScript coldWorld)))"
    using b i by (metis prod.collapse)
  show ?thesis
    using b ListAndWatch_stop_while_blocked [OF h] by blast
qed

text \<open>
  Claim C4 as stated fails while the list helper is in flight: the stop channel closes,
  and \<open>ListAndWatch\<close> starts the resync worker before it returns nil.
\<close>

theorem ListAndWatch_stop_during_list_counterexample:
  "ListAndWatch keyedStore [] coldWorld =
     (Blocks, [], coldWorld \<lparr> effects := [GoListHelper 0 initialOptions] \<rparr>)
   \<and> ListAndWatch keyedStore [StopClosed] coldWorld =
     (Returns None, [],
      coldWorld \<lparr> stopCh := True,
                  effects := [GoListHelper 0 initialOptions, GoResyncWorker, CloseCancel] \<rparr>)"
  by (simp add: ListAndWatch_def boundsPhase_def listPhase_def watchPhase_stopped deferred_def
        emit_def coldWorld_def NewNamedReflector_def)

subsection \<open>The very short watch\<close>

lemma watchHandlerLoop_close:
  assumes "\<forall>ev \<in> set evs. Type ev \<noteq> Error"
  shows "fst (watchHandlerLoop S (map WatchEvent evs @ WatchClosed d # rest) rv n w) =
     (if d < second \<and> n + int (length (filter (counted (expectedType (refl w))) evs)) = 0
      then Returns (Some (VeryShortWatch (name (refl w)))) else Returns None)"
  using assms
proof (induction evs arbitrary: rv n w)
  case Nil
  then show ?case by simp
next
  case (Cons ev evs)
  obtain err n' rv' w' where h: "watchHandlerHelper S ev rv n w = (err, n', rv', w')"
    by (metis prod_cases4)
  from watchHandlerHelper_keeps [OF h] Cons.prems have e: "err = None" by simp
  show ?case
    using Cons.IH [of rv' n' w'] Cons.prems watchHandlerHelper_keeps [OF h] h e
    by (auto split: if_splits simp: algebra_simps)
qed

lemma watchHandlerLoop_very_short_only_on_close:
  assumes "fst (watchHandlerLoop S ins rv n w) = Returns (Some (VeryShortWatch nm))"
  shows "\<exists>evs d rest. ins = map WatchEvent evs @ WatchClosed d # rest
           \<and> (\<forall>ev \<in> set evs. Type ev \<noteq> Error) \<and> d < second
           \<and> n + int (length (filter (counted (expectedType (refl w))) evs)) = 0"
  using assms
proof (induction ins arbitrary: rv n w)
  case Nil
  then show ?case by (simp split: if_splits)
next
  case (Cons i ins)
  show ?case
  proof (cases i)
    case (WatchEvent ev)
    obtain err n' rv' w' where h: "watchHandlerHelper S ev rv n w = (err, n', rv', w')"
      by (metis prod_cases4)
    have ne: "err \<noteq> Some (VeryShortWatch nm)"
      using h by (auto simp: watchHandlerHelper_def Let_def split: if_splits option.splits)
    with Cons.prems WatchEvent h have e: "err = None"
      and r: "fst (watchHandlerLoop S ins rv' n' w') = Returns (Some (VeryShortWatch nm))"
      by (auto split: option.splits)
    from Cons.IH [OF r] obtain evs d rest where
      x: "ins = map WatchEvent evs @ WatchClosed d # rest"
         "\<forall>ev \<in> set evs. Type ev \<noteq> Error" "d < second"
         "n' + int (length (filter (counted (expectedType (refl w'))) evs)) = 0"
      by blast
    have "i # ins = map WatchEvent (ev # evs) @ WatchClosed d # rest"
      using x WatchEvent by simp
    moreover have "\<forall>ev \<in> set (ev # evs). Type ev \<noteq> Error"
      using x watchHandlerHelper_keeps [OF h] e by simp
    moreover have "n + int (length (filter (counted (expectedType (refl w))) (ev # evs))) = 0"
      using x watchHandlerHelper_keeps [OF h] by (auto split: if_splits)
    ultimately show ?thesis using x(3) by blast
  next
    case (WatchClosed d)
    then have "i # ins = map WatchEvent [] @ WatchClosed d # ins" by simp
    moreover have "d < second \<and> n = 0"
      using Cons.prems WatchClosed by (simp split: if_splits)
    ultimately show ?thesis by fastforce
  qed (use Cons.prems in \<open>auto split: if_splits option.splits sum.splits\<close>)
qed

lemma watchHandler_fst:
  "fst (watchHandler S ins rv w) = fst (watchHandlerLoop S ins rv 0 w)"
  by (simp add: watchHandler_def split: prod.splits)

text \<open>
  Claim C5, as the code has it.  When the watch's channel closes after the events
  \<open>evs\<close> (none an \<open>Error\<close> event, which would have ended the handler before), with \<open>d\<close>
  the time since the handler started, \<open>watchHandler\<close> returns the very-short-watch error
  exactly when \<open>d\<close> is under one second and no event of \<open>evs\<close> was counted, and nil
  otherwise; and it returns that error on no other path.  Events dropped by the type
  filter or for want of metadata are received but not counted.
\<close>

theorem watchHandler_very_short_watch:
  "((\<forall>ev \<in> set evs. Type ev \<noteq> Error) \<longrightarrow>
      fst (watchHandler S (map WatchEvent evs @ WatchClosed d # rest) rv w) =
        (if d < second \<and> filter (counted (expectedType (refl w))) evs = []
         then Returns (Some (VeryShortWatch (name (refl w)))) else Returns None))
   \<and> (fst (watchHandler S ins rv w) = Returns (Some (VeryShortWatch nm)) \<longrightarrow>
        (\<exists>evs d rest. ins = map WatchEvent evs @ WatchClosed d # rest
           \<and> (\<forall>ev \<in> set evs. Type ev \<noteq> Error) \<and> d < second
           \<and> filter (counted (expectedType (refl w))) evs = []))"
  using watchHandlerLoop_close [of evs S d rest rv 0 w]
    watchHandlerLoop_very_short_only_on_close [of S ins rv 0 w nm]
  by (simp add: watchHandler_fst)

theorem watchHandler_very_short_watch_witness:
  "fst (watchHandler keyedStore [WatchClosed 400000000] ''5'' coldWorld)
     = Returns (Some (VeryShortWatch ''pods''))
   \<and> fst (watchHandler keyedStore
            [WatchEvent \<lparr> Type = Added, Object = objC7 \<rparr>, WatchClosed 400000000] ''5'' coldWorld)
     = Returns None
   \<and> fst (watchHandler keyedStore [WatchClosed 1000000000] ''5'' coldWorld) = Returns None"
  using watchHandler_very_short_watch [of "[]" keyedStore 400000000 "[]" "''5''" coldWorld "[]" "[]"]
    watchHandler_very_short_watch
      [of "[\<lparr> Type = Added, Object = objC7 \<rparr>]" keyedStore 400000000 "[]" "''5''" coldWorld "[]" "[]"]
    watchHandler_very_short_watch [of "[]" keyedStore 1000000000 "[]" "''5''" coldWorld "[]" "[]"]
  by (simp add: counted_def objC7_def coldWorld_def NewNamedReflector_def second_def)

text \<open>
  Claim C5 as stated fails: one event is received (and dropped by the type filter), the
  channel closes after 400 ms, and the error is returned all the same.
\<close>

theorem watchHandler_dropped_event_counterexample:
  "fst (watchHandler keyedStore
          [WatchEvent \<lparr> Type = Added, Object = objService \<rparr>, WatchClosed 400000000] ''5'' coldWorld)
     = Returns (Some (VeryShortWatch ''pods''))"
  by code_simp

subsection \<open>Errors of Watch\<close>



lemma formatInt64_examples:
  "formatInt64 0 = ''0''" "formatInt64 1000 = ''1000''" "formatInt64 2000 = ''2000''"
  "formatInt64 (- 1) = ''-1''"
  by (simp_all add: formatInt64_def digitChar_def)

subsection \<open>Field-selector rendering\<close>


text \<open>The selectors of the reset scenario, for the bounds \<open>[0, 1000]\<close> and \<open>[1000, 2000]\<close>.\<close>

lemma createHashkeyListOptions_examples:
  "map_sum id FieldSelector (createHashkeyListOptions (exReflector \<lparr> bounds := [0, 1000] \<rparr>))
     = Inr ''metadata.hashkey=gte:0,metadata.hashkey=lte:1000''"
  "map_sum id FieldSelector (createHashkeyListOptions (exReflector \<lparr> bounds := [1000, 2000] \<rparr>))
     = Inr ''metadata.hashkey=gt:1000,metadata.hashkey=lte:2000''"
  "map_sum id FieldSelector
     (createHashkeyListOptions (exReflector \<lparr> ownerKind := ''Pod'', bounds := [0, 1000] \<rparr>))
     = Inr ''metadata.ownerReferences.hashkey.Pod=gte:0,metadata.ownerReferences.hashkey.Pod=lte:1000''"
  by (simp_all add: createHashkeyListOptions_def index_def Let_def exReflector_def
        NewNamedReflector_def formatInt64_examples)

subsection \<open>The bounds and the reset payload\<close>

text \<open>
  Claim C8, as the code has it.  The constructor writes the sentinel \<open>[-1, -1]\<close>, which
  satisfies the invariant.  \<open>setBounds\<close> on a \<open>[]int64\<close> of at least two elements stores
  the payload as delivered, whatever its length and order: the stored bounds satisfy
  "sentinel, or a pair with lo \<le> hi" exactly when the payload has two elements with
  lo \<le> hi.  What every write keeps is that \<open>bounds\<close> has at least two elements and, after
  \<open>setBounds\<close>, equals the payload.
\<close>

theorem setBounds_stores_payload_unchecked:
  assumes "2 \<le> length (bounds r)"
  shows "bounds (NewNamedReflector nm expected st resync) = [- 1, - 1]
       \<and> boundsInv (bounds (NewNamedReflector nm expected st resync))
       \<and> setBounds r (Int64Slice (lo # hi # rest)) = Inr (r \<lparr> bounds := lo # hi # rest \<rparr>)
       \<and> boundsInv (lo # hi # rest) = (rest = [] \<and> sint lo \<le> sint hi)
       \<and> (\<forall>sig r'. setBounds r sig = Inr r' \<longrightarrow>
             2 \<le> length (bounds r') \<and> sig = Int64Slice (bounds r'))"
proof -
  have scan: "setBounds r sig = Inr r' \<Longrightarrow> 2 \<le> length (bounds r') \<and> sig = Int64Slice (bounds r')"
    for sig r'
    by (cases sig)
      (auto simp: setBounds_def index_def assertInt64Slice_def Let_def split: if_splits)
  have "setBounds r (Int64Slice (lo # hi # rest)) = Inr (r \<lparr> bounds := lo # hi # rest \<rparr>)"
    using assms by (auto simp: setBounds_def index_def assertInt64Slice_def)
  moreover have "boundsInv (lo # hi # rest) = (rest = [] \<and> sint lo \<le> sint hi)"
    by (auto simp: boundsInv_def)
  ultimately show ?thesis
    using scan by (simp add: NewNamedReflector_def boundsInv_def)
qed

theorem setBounds_stores_payload_unchecked_witness:
  "2 \<le> length (bounds exReflector)
   \<and> setBounds exReflector (Int64Slice [0, 1000]) = Inr (exReflector \<lparr> bounds := [0, 1000] \<rparr>)
   \<and> boundsInv [0, 1000]"
proof -
  have h: "2 \<le> length (bounds exReflector)"
    by (simp add: exReflector_def NewNamedReflector_def)
  show ?thesis
    using h setBounds_stores_payload_unchecked [OF h, of "''r''" None "()" 0 0 1000 "[]"]
    by simp
qed

text \<open>
  The invariant of claim C8 as stated fails: the payload \<open>[5, 3]\<close> is stored as it is.
\<close>

theorem setBounds_breaks_order_counterexample:
  "setBounds exReflector (Int64Slice [5, 3]) = Inr (exReflector \<lparr> bounds := [5, 3] \<rparr>)
   \<and> \<not> boundsInv (bounds (exReflector \<lparr> bounds := [5, 3] \<rparr>))"
  by (simp add: setBounds_def index_def assertInt64Slice_def boundsInv_def exReflector_def
        NewNamedReflector_def)

text \<open>
  Claim C10.  \<open>setBounds\<close> discards the result of the type assertion and indexes elements
  0 and 1 of the asserted slice: for every signal that is not a \<open>[]int64\<close> of length at
  least two (nil, a value of another type, a shorter slice) it panics with an index out
  of range, and no reflector is returned.
\<close>

theorem setBounds_panics_on_malformed:
  assumes "\<forall>xs. sig = Int64Slice xs \<longrightarrow> length xs < 2"
  shows "\<exists>i n. setBounds r sig = Inl (IndexOutOfRange i n)"
  using assms
  by (cases sig)
    (auto simp: setBounds_def index_def assertInt64Slice_def Let_def split: sum.splits)

theorem setBounds_panics_on_malformed_witness:
  "(\<exists>i n. setBounds exReflector NilSignal = Inl (IndexOutOfRange i n))
   \<and> (\<exists>i n. setBounds exReflector (OtherSignal ''x'') = Inl (IndexOutOfRange i n))
   \<and> (\<exists>i n. setBounds exReflector (Int64Slice [7]) = Inl (IndexOutOfRange i n))"
  using setBounds_panics_on_malformed [of NilSignal exReflector]
    setBounds_panics_on_malformed [of "OtherSignal ''x''" exReflector]
    setBounds_panics_on_malformed [of "Int64Slice [7]" exReflector]
  by simp

subsection \<open>The container deletor\<close>

text \<open>
  Claim C9.  \<open>newPodContainerDeletor\<close> stores nil in \<open>runtime\<close> whatever runtime it is
  given and stores \<open>containersToKeep\<close> as given; \<open>deleteContainersInPod\<close> on the
  constructed deletor (before any \<open>setRuntime\<close>) panics with a nil dereference whenever
  \<open>getContainersToDeleteInPod\<close> selects at least one container.
\<close>

theorem newPodContainerDeletor_runtime_nil:
  "runtime (newPodContainerDeletor rt keep :: 'rt podContainerDeletor) = None
   \<and> containersToKeep (newPodContainerDeletor rt keep :: 'rt podContainerDeletor) = keep
   \<and> (\<forall>cs. getContainersToDeleteInPod (if ra then [] else f) ps (if ra then 0 else keep) = Inr cs
            \<and> cs \<noteq> []
        \<longrightarrow> deleteContainersInPod (newPodContainerDeletor rt keep :: 'rt podContainerDeletor) f ps ra
            = Inl NilPointerDereference)"
  by (auto simp: newPodContainerDeletor_def deleteContainersInPod_def Let_def
        split: list.splits)

theorem newPodContainerDeletor_runtime_nil_witness:
  "getContainersToDeleteInPod [] exPod 0 = Inr [exExited]
   \<and> deleteContainersInPod (newPodContainerDeletor ''some runtime'' 0 :: unit podContainerDeletor)
        [] exPod False = Inl NilPointerDereference"
proof -
  have sel: "getContainersToDeleteInPod [] exPod 0 = Inr [exExited]"
    by (simp add: getContainersToDeleteInPod_def matchedContainer_def exPod_def exExited_def
          sortByCreated_def)
  show ?thesis
    using sel
      newPodContainerDeletor_runtime_nil [where ?'rt = unit, of "''some runtime''" 0 False "[]" exPod]
    by simp
qed

text \<open>Once \<open>setRuntime\<close> has run, the same call issues the removal request.\<close>

lemma deleteContainersInPod_after_setRuntime:
  "deleteContainersInPod (setRuntime (newPodContainerDeletor ''some runtime'' 0) ()) [] exPod False
     = Inr [''docker://c1'']"
  by (simp add: deleteContainersInPod_def setRuntime_def newPodContainerDeletor_def
        getContainersToDeleteInPod_def matchedContainer_def exPod_def exExited_def
        sortByCreated_def ContainerIDString_def)

end
